theory Spec2Isabelle
  imports Complex_Main "HOL-Library.Monad_Syntax"
begin

section \<open>Numbers\<close>

text \<open>
  The display backends compute with JavaScript numbers. They are modelled by the reals:
  \<open>Math.floor\<close> and \<open>Math.ceil\<close> are \<^const>\<open>floor\<close> and \<^const>\<open>ceiling\<close> (an integer
  result is kept as an \<^typ>\<open>int\<close>), \<open>Math.sqrt(3)\<close> is \<^term>\<open>sqrt 3\<close>, \<open>Math.min\<close> is
  \<^const>\<open>min\<close>. Rounding of the binary floating-point format is not part of the model.

  A JavaScript division by zero does not raise: it yields \<open>Infinity\<close> or \<open>NaN\<close>, which
  no real number stands for. The model makes that a branch of its own: a quotient is an
  \<^typ>\<open>real option\<close>, and \<open>None\<close> says that the computation has left the finite
  numbers; the model follows it no further, and the method's result is \<open>None\<close>.
\<close>

definition js_div :: "real \<Rightarrow> real \<Rightarrow> real option" where
  "js_div a b = (if b = 0 then None else Some (a / b))"

definition mod_util :: "int \<Rightarrow> int \<Rightarrow> int" where
  \<comment> \<open>Modelled from the spec: \<open>mod\<close> is imported from \<open>../util.js\<close>, which is not among the
      sources. Its one use tests \<open>mod(y, 2)\<close> and calls the non-zero case the odd row
      (the doubled-hex-grid convention of the spec); it is taken as the non-negative
      remainder.\<close>
  "mod_util x n = x mod n"

section \<open>Options (types.ts, hex.ts)\<close>

text \<open>
  \<open>DisplayOptions\<close> as a caller passes them: every field of \<open>BaseDisplayOptions\<close>,
  \<open>TextDisplayOptions\<close> and \<open>HexOptions\<close> may be absent.
\<close>

record display_options =
  width_opt :: "real option"
  height_opt :: "real option"
  layout_opt :: "string option"
  fg_opt :: "string option"
  bg_opt :: "string option"
  fontSize_opt :: "real option"
  spacing_opt :: "real option"
  border_opt :: "real option"
  fontFamily_opt :: "string option"
  fontStyle_opt :: "string option"
  transpose_opt :: "bool option"

text \<open>\<open>Required<HexOptions>\<close>: the effective options a backend holds in \<open>_options\<close>.\<close>

record hex_options =
  width :: real
  height :: real
  layout :: string
  fg :: string
  bg :: string
  fontSize :: real
  spacing :: real
  border :: real
  fontFamily :: string
  fontStyle :: string
  transpose :: bool

text \<open>
  \<open>Canvas.DEFAULTS\<close> spreads \<open>super.DEFAULTS\<close> of the class \<open>Backend\<close>, whose file
  (\<open>backend.js\<close>) is not among the sources. The base defaults are a parameter.
\<close>

record base_defaults =
  default_width :: real
  default_height :: real
  default_layout :: string
  default_fg :: string
  default_bg :: string

definition Canvas_DEFAULTS :: "base_defaults \<Rightarrow> hex_options" where
  "Canvas_DEFAULTS bd =
     \<lparr>width = default_width bd, height = default_height bd, layout = default_layout bd,
      fg = default_fg bd, bg = default_bg bd,
      fontSize = 15, spacing = 1, border = 0, fontFamily = ''monospace'', fontStyle = '''',
      transpose = False\<rparr>"

definition Hex_DEFAULTS :: "base_defaults \<Rightarrow> hex_options" where
  "Hex_DEFAULTS bd = (Canvas_DEFAULTS bd)\<lparr>transpose := False\<rparr>"

definition or_default :: "'a option \<Rightarrow> 'a \<Rightarrow> 'a" where
  \<comment> \<open>one key of the object spread \<open>{...DEFAULTS, ...options}\<close>\<close>
  "or_default v d = (case v of None \<Rightarrow> d | Some a \<Rightarrow> a)"

definition defaultedOptions :: "base_defaults \<Rightarrow> display_options \<Rightarrow> hex_options" where
  "defaultedOptions bd opts =
     (let d = Hex_DEFAULTS bd in
      \<lparr>width = or_default (width_opt opts) (width d),
       height = or_default (height_opt opts) (height d),
       layout = or_default (layout_opt opts) (layout d),
       fg = or_default (fg_opt opts) (fg d),
       bg = or_default (bg_opt opts) (bg d),
       fontSize = or_default (fontSize_opt opts) (fontSize d),
       spacing = or_default (spacing_opt opts) (spacing d),
       border = or_default (border_opt opts) (border d),
       fontFamily = or_default (fontFamily_opt opts) (fontFamily d),
       fontStyle = or_default (fontStyle_opt opts) (fontStyle d),
       transpose = or_default (transpose_opt opts) (transpose d)\<rparr>)"

section \<open>The drawing surface and the backend state\<close>

text \<open>
  The 2D context's \<open>font\<close> is a CSS font string that the code builds from a style, a
  pixel size and a family (\<open>`${style} ${fontSize}px ${fontFamily}`\<close>, \<open>"100px " + fontFamily\<close>).
  The model keeps the three parts. The host's \<open>measureText("W").width\<close> under the font in
  force is a parameter \<open>mt\<close> of every method that measures.
\<close>

datatype font = Font (font_style: string) (font_px: real) (font_family: string)

text \<open>
  The calls a method makes on the context are logged in order. \<open>fill()\<close> and \<open>fillText\<close>
  paint with the \<open>fillStyle\<close> in force, which the log entry records.
\<close>

datatype surface_op =
    BeginPath
  | MoveTo real real
  | LineTo real real
  | Fill string
  | FillText string string real real

text \<open>
  A backend: \<open>_options\<close> (\<open>None\<close> before the first \<open>setOptions\<close>), the derived geometry of
  \<open>Hex\<close>, the context \<open>_ctx\<close> with its canvas, and the canvas's bounding client rectangle,
  which the host's layout decides.
\<close>

record hex_state =
  options :: "hex_options option"
  spacingX :: real
  spacingY :: real
  hexSize :: real
  ctx_font :: font
  ctx_fillStyle :: string
  ctx_textAlign :: string
  ctx_textBaseline :: string
  ctx_ops :: "surface_op list"
  canvas_width :: int
  canvas_height :: int
  rect_left :: real
  rect_top :: real
  rect_width :: real
  rect_height :: real

section \<open>Hex (hex.ts)\<close>

text \<open>
  A method that reads \<open>this._options\<close> on a backend that has none yet is outside the
  model (the result is \<open>None\<close>): one \<open>setOptions\<close> call comes before any other use.
  Methods keep their names, without the leading underscore of the private ones.
\<close>

definition checkOptions :: "hex_state \<Rightarrow> display_options \<Rightarrow> bool \<times> hex_state" where
  "checkOptions s opts = (layout_opt opts = Some ''hex'', s)"

definition swap_args :: "real \<Rightarrow> real \<Rightarrow> real \<times> real" where
  \<comment> \<open>\<open>a += b; b = a - b; a -= b\<close>: the exchange without a temporary. Over the reals it
      returns \<open>(b, a)\<close>; in doubles each of the three steps rounds, and the pair that
      comes out can differ from \<open>(b, a)\<close> in the last place.\<close>
  "swap_args a b = (let a1 = a + b; b1 = a1 - b; a2 = a1 - b1 in (a2, b1))"

definition cellCenter :: "hex_state \<Rightarrow> hex_options \<Rightarrow> real \<Rightarrow> real \<Rightarrow> real \<times> real" where
  \<comment> \<open>the array \<open>px\<close> of \<open>draw\<close>, reversed under \<open>transpose\<close>\<close>
  "cellCenter s opts x y =
     (let px = ((x + 1) * spacingX s, y * spacingY s + hexSize s)
      in if transpose opts then (snd px, fst px) else px)"

definition ctx_calls :: "surface_op list \<Rightarrow> hex_state \<Rightarrow> hex_state" where
  \<comment> \<open>calls on \<open>this._ctx\<close>, in program order\<close>
  "ctx_calls cs s = s\<lparr>ctx_ops := ctx_ops s @ cs\<rparr>"

definition hexPath :: "hex_state \<Rightarrow> hex_options \<Rightarrow> real \<Rightarrow> real \<Rightarrow> surface_op list" where
  \<comment> \<open>the path of \<open>_fill\<close> between \<open>beginPath()\<close> and \<open>fill()\<close>\<close>
  "hexPath s opts cx cy =
     (let a = hexSize s; b = border opts
      in if transpose opts then
           [MoveTo (cx - a + b) cy,
            LineTo (cx - a / 2 + b) (cy + spacingX s - b),
            LineTo (cx + a / 2 - b) (cy + spacingX s - b),
            LineTo (cx + a - b) cy,
            LineTo (cx + a / 2 - b) (cy - spacingX s + b),
            LineTo (cx - a / 2 + b) (cy - spacingX s + b),
            LineTo (cx - a + b) cy]
         else
           [MoveTo cx (cy - a + b),
            LineTo (cx + spacingX s - b) (cy - a / 2 + b),
            LineTo (cx + spacingX s - b) (cy + a / 2 - b),
            LineTo cx (cy + a - b),
            LineTo (cx - spacingX s + b) (cy + a / 2 - b),
            LineTo (cx - spacingX s + b) (cy - a / 2 + b),
            LineTo cx (cy - a + b)])"

definition fill :: "hex_state \<Rightarrow> hex_options \<Rightarrow> real \<Rightarrow> real \<Rightarrow> hex_state" where
  "fill s opts cx cy =
     ctx_calls ([BeginPath] @ hexPath s opts cx cy @ [Fill (ctx_fillStyle s)]) s"

text \<open>\<open>DisplayData\<close>, the fields \<open>draw\<close> destructures.\<close>

record hex_data =
  cell_x :: real
  cell_y :: real
  chars :: "string list"
  cell_fg :: string
  cell_bg :: string

primrec fillText_loop :: "string list \<Rightarrow> real \<Rightarrow> real \<Rightarrow> hex_state \<Rightarrow> hex_state" where
  \<comment> \<open>\<open>for (let i=0;i<chars.length;i++) { this._ctx.fillText(chars[i], px[0], Math.ceil(px[1])); }\<close>\<close>
  "fillText_loop [] px0 py s = s"
| "fillText_loop (ch # rest) px0 py s =
     fillText_loop rest px0 py (ctx_calls [FillText (ctx_fillStyle s) ch px0 py] s)"

definition draw :: "hex_state \<Rightarrow> hex_data \<Rightarrow> bool \<Rightarrow> hex_state option" where
  "draw s data clearBefore =
     (case options s of None \<Rightarrow> None | Some opts \<Rightarrow>
        (let px = cellCenter s opts (cell_x data) (cell_y data);
             s1 = (if clearBefore
                   then fill (s\<lparr>ctx_fillStyle := cell_bg data\<rparr>) opts (fst px) (snd px)
                   else s)
         in if chars data = [] then Some s1
            else Some (fillText_loop (chars data) (fst px) (of_int \<lceil>snd px\<rceil>)
                         (s1\<lparr>ctx_fillStyle := cell_fg data\<rparr>))))"

definition computeSize :: "hex_state \<Rightarrow> real \<Rightarrow> real \<Rightarrow> (int \<times> int) option \<times> hex_state" where
  "computeSize s availWidth availHeight =
     (case options s of None \<Rightarrow> (None, s) | Some opts \<Rightarrow>
        (let (aw, ah) = (if transpose opts then swap_args availWidth availHeight
                         else (availWidth, availHeight))
         in (do {
               qw \<leftarrow> js_div aw (spacingX s);
               qh \<leftarrow> js_div (ah - 2 * hexSize s) (spacingY s);
               Some (\<lfloor>qw\<rfloor> - 1, \<lfloor>qh + 1\<rfloor>)
             }, s)))"

definition computeFontSize ::
  "(font \<Rightarrow> real) \<Rightarrow> hex_state \<Rightarrow> real \<Rightarrow> real \<Rightarrow> int option \<times> hex_state" where
  "computeFontSize mt s availWidth availHeight =
     (case options s of None \<Rightarrow> (None, s) | Some opts \<Rightarrow>
        (let (aw, ah) = (if transpose opts then swap_args availWidth availHeight
                         else (availWidth, availHeight));
             oldFont = ctx_font s;
             s1 = s\<lparr>ctx_font := Font '''' 100 (fontFamily opts)\<rparr>;
             w = \<lceil>mt (ctx_font s1)\<rceil>;
             s2 = s1\<lparr>ctx_font := oldFont\<rparr>;
             ratio = real_of_int w / 100
         in (do {
               qw \<leftarrow> js_div (2 * aw) ((width opts + 1) * sqrt 3);
               let hexSizeWidth = qw - 1;
               hexSizeHeight \<leftarrow> js_div ah (2 + 1.5 * (height opts - 1));
               let hs = real_of_int (\<lfloor>min hexSizeWidth hexSizeHeight\<rfloor> + 1);
               fs \<leftarrow> js_div (2 * hs) (spacing opts * (1 + ratio / sqrt 3));
               Some (\<lceil>fs\<rceil> - 1)
             }, s2)))"

definition normalizedEventToPosition :: "hex_state \<Rightarrow> real \<Rightarrow> real \<Rightarrow> (int \<times> int) option" where
  "normalizedEventToPosition s x0 y0 =
     (case options s of None \<Rightarrow> None | Some opts \<Rightarrow>
        (let (x, y, nodeSize) =
               (if transpose opts
                then (let (x', y') = swap_args x0 y0 in (x', y', real_of_int (canvas_width s)))
                else (x0, y0, real_of_int (canvas_height s)))
         in do {
              size \<leftarrow> js_div nodeSize (height opts);
              q \<leftarrow> js_div y size;
              let row = \<lfloor>q\<rfloor>;
              if mod_util row 2 \<noteq> 0
              then do { c \<leftarrow> js_div (x - spacingX s) (2 * spacingX s); Some (1 + 2 * \<lfloor>c\<rfloor>, row) }
              else do { c \<leftarrow> js_div x (2 * spacingX s); Some (2 * \<lfloor>c\<rfloor>, row) }
            }))"

definition updateSize :: "(font \<Rightarrow> real) \<Rightarrow> hex_state \<Rightarrow> hex_state option" where
  "updateSize mt s =
     (case options s of None \<Rightarrow> None | Some opts \<Rightarrow>
        (let charWidth = \<lceil>mt (ctx_font s)\<rceil>;
             h = real_of_int \<lfloor>spacing opts * (fontSize opts + of_int charWidth / sqrt 3) / 2\<rfloor>;
             sx = h * sqrt 3 / 2;
             sy = h * 1.5;
             xsize = \<lceil>(width opts + 1) * sx\<rceil>;
             ysize = \<lceil>(height opts - 1) * sy + 2 * h\<rceil>;
             s1 = s\<lparr>hexSize := h, spacingX := sx, spacingY := sy\<rparr>
         in Some (if transpose opts
                  then s1\<lparr>canvas_height := xsize, canvas_width := ysize\<rparr>
                  else s1\<lparr>canvas_width := xsize, canvas_height := ysize\<rparr>)))"

section \<open>BaseCanvas and Canvas (canvas.ts)\<close>

definition eventToPosition ::
  "(hex_state \<Rightarrow> real \<Rightarrow> real \<Rightarrow> (int \<times> int) option) \<Rightarrow> hex_state \<Rightarrow> real \<Rightarrow> real
     \<Rightarrow> (int \<times> int) option" where
  \<comment> \<open>\<open>nep\<close> is the variant's \<open>_normalizedEventToPosition\<close>, abstract in \<open>BaseCanvas\<close>\<close>
  "eventToPosition nep s x0 y0 =
     (let x1 = x0 - rect_left s;
          y1 = y0 - rect_top s
      in do {
           kx \<leftarrow> js_div (real_of_int (canvas_width s)) (rect_width s);
           ky \<leftarrow> js_div (real_of_int (canvas_height s)) (rect_height s);
           let x2 = x1 * kx;
           let y2 = y1 * ky;
           if x2 < 0 \<or> y2 < 0 \<or> x2 \<ge> real_of_int (canvas_width s)
                \<or> y2 \<ge> real_of_int (canvas_height s)
           then Some (-1, -1)
           else nep s x2 y2
         })"

definition Hex_eventToPosition :: "hex_state \<Rightarrow> real \<Rightarrow> real \<Rightarrow> (int \<times> int) option" where
  "Hex_eventToPosition = eventToPosition normalizedEventToPosition"

definition Backend_setOptions ::
  "base_defaults \<Rightarrow> hex_state \<Rightarrow> display_options \<Rightarrow> bool \<times> hex_state" where
  \<comment> \<open>Modelled from the spec: \<open>Backend.setOptions\<close> lives in \<open>backend.js\<close>, which is not among
      the sources. The spec: the effective options become the passed options merged with
      the variant's defaults; the base level asks for a repaint when any of
      width/height/fg/bg/layout changed relative to the prior effective options, and the
      first call, with no prior options, asks for one.\<close>
  "Backend_setOptions bd s opts =
     (let new = defaultedOptions bd opts;
          needsRepaint =
            (case options s of
               None \<Rightarrow> True
             | Some old \<Rightarrow> width old \<noteq> width new \<or> height old \<noteq> height new
                 \<or> fg old \<noteq> fg new \<or> bg old \<noteq> bg new \<or> layout old \<noteq> layout new)
      in (needsRepaint, s\<lparr>options := Some new\<rparr>))"

definition BaseCanvas_setOptions ::
  "(font \<Rightarrow> real) \<Rightarrow> base_defaults \<Rightarrow> hex_state \<Rightarrow> display_options \<Rightarrow> (bool \<times> hex_state) option" where
  "BaseCanvas_setOptions mt bd s opts =
     (let (needsRepaint, s1) = Backend_setOptions bd s opts
      in if needsRepaint then map_option (Pair needsRepaint) (updateSize mt s1)
         else Some (needsRepaint, s1))"

definition Canvas_font :: "hex_options \<Rightarrow> font" where
  \<comment> \<open>\<open>style = (opts.fontStyle ? `${opts.fontStyle} ` : ``)\<close>,
      \<open>font = `${style} ${opts.fontSize}px ${opts.fontFamily}`\<close>\<close>
  "Canvas_font opts =
     Font (if fontStyle opts \<noteq> [] then fontStyle opts @ [CHR '' ''] else [])
          (fontSize opts) (fontFamily opts)"

definition Canvas_refresh :: "(font \<Rightarrow> real) \<Rightarrow> hex_state \<Rightarrow> hex_state option" where
  \<comment> \<open>the body of \<open>if (needsRepaint) { ... }\<close> in \<open>Canvas.setOptions\<close>\<close>
  "Canvas_refresh mt s =
     (case options s of None \<Rightarrow> None | Some opts \<Rightarrow>
        (let font = Canvas_font opts
         in map_option
              (\<lambda>s2. s2\<lparr>ctx_font := font, ctx_textAlign := ''center'',
                        ctx_textBaseline := ''middle''\<rparr>)
              (updateSize mt (s\<lparr>ctx_font := font\<rparr>))))"

definition Canvas_setOptions ::
  "(font \<Rightarrow> real) \<Rightarrow> base_defaults \<Rightarrow> hex_state \<Rightarrow> display_options \<Rightarrow> (bool \<times> hex_state) option" where
  "Canvas_setOptions mt bd s opts =
     (let prior_fontSize = map_option fontSize (options s);
          prior_fontFamily = map_option fontFamily (options s);
          prior_spacing = map_option spacing (options s)
      in do {
           (base, s1) \<leftarrow> BaseCanvas_setOptions mt bd s opts;
           let needsRepaint = (base \<or> prior_fontSize \<noteq> fontSize_opt opts
                                 \<or> prior_fontFamily \<noteq> fontFamily_opt opts
                                 \<or> prior_spacing \<noteq> spacing_opt opts);
           if needsRepaint then map_option (Pair needsRepaint) (Canvas_refresh mt s1)
           else Some (needsRepaint, s1)
         })"

section \<open>The size-fit after a font-fit\<close>

definition refit :: "(font \<Rightarrow> real) \<Rightarrow> hex_state \<Rightarrow> real \<Rightarrow> hex_state option" where
  \<comment> \<open>the geometry implied by a font size: the effective \<open>fontSize\<close> replaced, then the
      repaint of \<open>Canvas.setOptions\<close>, which sets the font and runs \<open>_updateSize\<close>\<close>
  "refit mt s F =
     (case options s of None \<Rightarrow> None
      | Some opts \<Rightarrow> Canvas_refresh mt (s\<lparr>options := Some (opts\<lparr>fontSize := F\<rparr>)\<rparr>))"

section \<open>Concrete backends\<close>

text \<open>
  A host whose glyph \<open>W\<close> is 0.6 em wide in every font (a usual monospace face), a new
  \<open>Hex\<close> on a new canvas (300 by 150, font \<open>10px sans-serif\<close>), and the options of the
  spec's scenario, with base defaults chosen for the example.
\<close>

definition glyph_em :: "font \<Rightarrow> real" where
  "glyph_em f = 3 / 5 * font_px f"

definition fresh_hex :: hex_state where
  "fresh_hex =
     \<lparr>options = None, spacingX = 0, spacingY = 0, hexSize = 0,
      ctx_font = Font [] 10 ''sans-serif'', ctx_fillStyle = ''#000000'',
      ctx_textAlign = ''start'', ctx_textBaseline = ''alphabetic'', ctx_ops = [],
      canvas_width = 300, canvas_height = 150,
      rect_left = 0, rect_top = 0, rect_width = 300, rect_height = 150\<rparr>"

definition display_defaults :: base_defaults where
  "display_defaults =
     \<lparr>default_width = 80, default_height = 25, default_layout = ''rect'',
      default_fg = ''#ccc'', default_bg = ''#000''\<rparr>"

definition scenario_options :: display_options where
  "scenario_options =
     \<lparr>width_opt = Some 10, height_opt = Some 10, layout_opt = Some ''hex'',
      fg_opt = None, bg_opt = None, fontSize_opt = Some 15, spacing_opt = Some 1,
      border_opt = Some 0, fontFamily_opt = Some ''monospace'', fontStyle_opt = None,
      transpose_opt = Some False\<rparr>"

definition scenario_effective :: hex_options where
  "scenario_effective =
     \<lparr>width = 10, height = 10, layout = ''hex'', fg = ''#ccc'', bg = ''#000'',
      fontSize = 15, spacing = 1, border = 0, fontFamily = ''monospace'', fontStyle = [],
      transpose = False\<rparr>"

text \<open>The backend after \<open>setOptions\<close> of the scenario: circumradius 10.\<close>

definition scenario_hex :: hex_state where
  "scenario_hex =
     \<lparr>options = Some scenario_effective,
      spacingX = 5 * sqrt 3, spacingY = 15, hexSize = 10,
      ctx_font = Font [] 15 ''monospace'', ctx_fillStyle = ''#000000'',
      ctx_textAlign = ''center'', ctx_textBaseline = ''middle'', ctx_ops = [],
      canvas_width = 96, canvas_height = 155,
      rect_left = 0, rect_top = 0, rect_width = 300, rect_height = 150\<rparr>"

text \<open>The same backend at font size 22: circumradius 15.\<close>

definition scenario_hex_22 :: hex_state where
  "scenario_hex_22 =
     \<lparr>options = Some (scenario_effective\<lparr>fontSize := 22\<rparr>),
      spacingX = 15 * sqrt 3 / 2, spacingY = 45 / 2, hexSize = 15,
      ctx_font = Font [] 22 ''monospace'', ctx_fillStyle = ''#000000'',
      ctx_textAlign = ''center'', ctx_textBaseline = ''middle'', ctx_ops = [],
      canvas_width = 143, canvas_height = 233,
      rect_left = 0, rect_top = 0, rect_width = 300, rect_height = 150\<rparr>"

text \<open>The same backend at font size 20: circumradius 13.\<close>

definition scenario_hex_20 :: hex_state where
  "scenario_hex_20 =
     \<lparr>options = Some (scenario_effective\<lparr>fontSize := 20\<rparr>),
      spacingX = 13 * sqrt 3 / 2, spacingY = 39 / 2, hexSize = 13,
      ctx_font = Font [] 20 ''monospace'', ctx_fillStyle = ''#000000'',
      ctx_textAlign = ''center'', ctx_textBaseline = ''middle'', ctx_ops = [],
      canvas_width = 124, canvas_height = 202,
      rect_left = 0, rect_top = 0, rect_width = 300, rect_height = 150\<rparr>"

text \<open>Two cells: one without glyphs at (0, 0), one with the glyph \<open>@\<close> at (0, 1).\<close>

definition blank_cell :: hex_data where
  "blank_cell = \<lparr>cell_x = 0, cell_y = 0, chars = [], cell_fg = ''#fff'', cell_bg = ''#000''\<rparr>"

definition glyph_cell :: hex_data where
  "glyph_cell = \<lparr>cell_x = 0, cell_y = 1, chars = [''@''], cell_fg = ''#fff'', cell_bg = ''#000''\<rparr>"






section \<open>Auxiliary facts\<close>

lemma swap_args_eq: "swap_args a b = (b, a)"
  by (simp add: swap_args_def Let_def)

lemma mod_util_odd: "mod_util r 2 \<noteq> 0 \<longleftrightarrow> odd r"
  by (simp add: mod_util_def odd_iff_mod_2_eq_one)

lemma sqrt3_lower: "433 / 250 < sqrt 3"
  by (rule real_less_rsqrt) (simp add: power2_eq_square)

lemma sqrt3_upper: "sqrt 3 < 1733 / 1000"
  by (rule real_less_lsqrt) (simp_all add: power2_eq_square)

lemma floor_between: "real_of_int n \<le> x \<Longrightarrow> x < real_of_int n + 1 \<Longrightarrow> \<lfloor>x\<rfloor> = n"
  by (simp add: floor_eq_iff)

lemma ceiling_between: "real_of_int n - 1 < x \<Longrightarrow> x \<le> real_of_int n \<Longrightarrow> \<lceil>x\<rceil> = n"
  by (simp add: ceiling_eq_iff)

lemma updateSize_geometry:
  assumes "updateSize mt s0 = Some s" "options s0 = Some opts"
  shows "options s = Some opts"
    and "hexSize s = real_of_int \<lfloor>spacing opts * (fontSize opts + real_of_int \<lceil>mt (ctx_font s0)\<rceil> / sqrt 3) / 2\<rfloor>"
    and "spacingX s = hexSize s * sqrt 3 / 2"
    and "spacingY s = hexSize s * 1.5"
    and "(if transpose opts then canvas_height s else canvas_width s) = \<lceil>(width opts + 1) * spacingX s\<rceil>"
    and "(if transpose opts then canvas_width s else canvas_height s)
           = \<lceil>(height opts - 1) * spacingY s + 2 * hexSize s\<rceil>"
  using assms by (auto simp add: updateSize_def Let_def)

lemma fillText_loop_ops:
  "fillText_loop cs px py s
     = s\<lparr>ctx_ops := ctx_ops s @ map (\<lambda>ch. FillText (ctx_fillStyle s) ch px py) cs\<rparr>"
  by (induction cs arbitrary: s) (simp_all add: ctx_calls_def)

subsection \<open>The concrete backends, evaluated\<close>

lemma glyph_15: "\<lceil>glyph_em (Font st 15 fam)\<rceil> = 9"
  by (simp add: glyph_em_def)

lemma glyph_22: "\<lceil>glyph_em (Font st 22 fam)\<rceil> = 14"
  by (simp add: glyph_em_def ceiling_eq_iff)

lemma glyph_100: "\<lceil>glyph_em (Font st 100 fam)\<rceil> = 60"
  by (simp add: glyph_em_def)

lemma radius_15: "\<lfloor>(15 + 9 / sqrt 3) / 2\<rfloor> = 10"
  using sqrt3_lower sqrt3_upper by (intro floor_between) (simp_all add: field_simps)

lemma radius_22: "\<lfloor>(22 + 14 / sqrt 3) / 2\<rfloor> = 15"
  using sqrt3_lower sqrt3_upper by (intro floor_between) (simp_all add: field_simps)

lemma extent_15: "\<lceil>55 * sqrt 3\<rceil> = 96"
  using sqrt3_lower sqrt3_upper by (intro ceiling_between) (simp_all add: field_simps)

lemma extent_22: "\<lceil>165 * sqrt 3 / 2\<rceil> = 143"
  using sqrt3_lower sqrt3_upper by (intro ceiling_between) (simp_all add: field_simps)

lemma scenario_updateSize: "updateSize glyph_em scenario_hex = Some scenario_hex"
  by (simp add: updateSize_def scenario_effective_def scenario_hex_def Let_def
      glyph_15 radius_15 extent_15)

lemma scenario_refresh:
  "Canvas_refresh glyph_em (fresh_hex\<lparr>options := Some scenario_effective\<rparr>) = Some scenario_hex"
  by (simp add: Canvas_refresh_def Canvas_font_def updateSize_def scenario_effective_def
      fresh_hex_def scenario_hex_def Let_def glyph_15 radius_15 extent_15)

lemma scenario_refit_22: "refit glyph_em scenario_hex 22 = Some scenario_hex_22"
  by (simp add: refit_def Canvas_refresh_def Canvas_font_def updateSize_def
      scenario_effective_def scenario_hex_def scenario_hex_22_def Let_def
      glyph_22 radius_22 extent_22 ceiling_eq_iff)

section \<open>Capability check\<close>

text \<open>
  C7. \<open>Hex.checkOptions\<close> is a pure predicate on the layout discriminant: for every
  options object it answers whether the layout is \<open>"hex"\<close>, and it leaves the backend
  as it was.
\<close>

theorem checkOptions_layout_pure:
  "checkOptions s opts = (layout_opt opts = Some ''hex'', s)"
  by (simp add: checkOptions_def)

section \<open>Size-fit\<close>

text \<open>
  C4. With \<open>transpose\<close> off, \<open>Hex.computeSize\<close> returns exactly
  \<open>[\<lfloor>availWidth / spacingX\<rfloor> - 1, \<lfloor>(availHeight - 2 hexSize) / spacingY + 1\<rfloor>]\<close>, where the
  geometry that \<open>_updateSize\<close> derived has \<open>spacingX = hexSize \<surd>3 / 2\<close> and
  \<open>spacingY = 1.5 hexSize\<close>, the circumradius \<open>hexSize\<close> coming from the font size and the
  measured glyph width. The circumradius is non-zero, so that both quotients are finite.
\<close>

theorem computeSize_formula:
  assumes "options s0 = Some opts" "updateSize mt s0 = Some s"
    and "\<not> transpose opts" "hexSize s \<noteq> 0"
  shows "hexSize s = real_of_int \<lfloor>spacing opts * (fontSize opts + real_of_int \<lceil>mt (ctx_font s0)\<rceil> / sqrt 3) / 2\<rfloor>
       \<and> spacingX s = hexSize s * sqrt 3 / 2
       \<and> spacingY s = hexSize s * 1.5
       \<and> fst (computeSize s W H)
           = Some (\<lfloor>W / spacingX s\<rfloor> - 1, \<lfloor>(H - 2 * hexSize s) / spacingY s + 1\<rfloor>)"
proof -
  note g = updateSize_geometry [OF assms(2) assms(1)]
  have "spacingX s \<noteq> 0"
    unfolding g(3) using assms(4) by simp
  moreover have "spacingY s \<noteq> 0"
    unfolding g(4) using assms(4) by simp
  ultimately have "fst (computeSize s W H)
           = Some (\<lfloor>W / spacingX s\<rfloor> - 1, \<lfloor>(H - 2 * hexSize s) / spacingY s + 1\<rfloor>)"
    using g(1) assms(3) by (simp add: computeSize_def js_div_def)
  with g(2,3,4) show ?thesis by simp
qed

theorem computeSize_formula_witness:
  "options scenario_hex = Some scenario_effective
   \<and> updateSize glyph_em scenario_hex = Some scenario_hex
   \<and> \<not> transpose scenario_effective \<and> hexSize scenario_hex \<noteq> 0
   \<and> fst (computeSize scenario_hex 200 100)
       = Some (\<lfloor>200 / spacingX scenario_hex\<rfloor> - 1,
               \<lfloor>(100 - 2 * hexSize scenario_hex) / spacingY scenario_hex + 1\<rfloor>)"
proof -
  have a: "options scenario_hex = Some scenario_effective"
    and b: "\<not> transpose scenario_effective" and c: "hexSize scenario_hex \<noteq> 0"
    by (simp_all add: scenario_hex_def scenario_effective_def)
  from computeSize_formula [OF a scenario_updateSize b c, of 200 100] a b c scenario_updateSize
  show ?thesis by blast
qed



subsection \<open>Transpose\<close>

text \<open>
  C3. Transpose symmetry of \<open>Hex.computeSize\<close>, as the code has it, for a fixed derived
  geometry. With \<open>transpose\<close> on, \<open>computeSize(W, H)\<close> is \<open>computeSize\<close> with \<open>transpose\<close> off
  on the pair that the in-place exchange \<open>a += b; b = a - b; a -= b\<close> makes of \<open>(W, H)\<close>.
  So for every pixel box on which that exchange is exact, returning \<open>(H, W)\<close>,
  \<open>computeSize(W, H)\<close> with \<open>transpose\<close> on equals \<open>computeSize(H, W)\<close> with \<open>transpose\<close> off,
  component for component: the inputs change places, the returned pair
  \<open>[width, height]\<close> is not swapped. The proof does not use that the exchange is exact.
\<close>

theorem computeSize_transpose_symmetry:
  "(case swap_args W H of (a, b) \<Rightarrow>
      fst (computeSize (s\<lparr>options := Some (opts\<lparr>transpose := True\<rparr>)\<rparr>) W H)
        = fst (computeSize (s\<lparr>options := Some (opts\<lparr>transpose := False\<rparr>)\<rparr>) a b))
   \<and> (swap_args W H = (H, W) \<longrightarrow>
      fst (computeSize (s\<lparr>options := Some (opts\<lparr>transpose := True\<rparr>)\<rparr>) W H)
        = fst (computeSize (s\<lparr>options := Some (opts\<lparr>transpose := False\<rparr>)\<rparr>) H W))"
  by (cases "swap_args W H") (simp add: computeSize_def)

theorem computeSize_transpose_symmetry_witness:
  "swap_args 200 100 = (100, 200)
   \<and> fst (computeSize (scenario_hex\<lparr>options := Some (scenario_effective\<lparr>transpose := True\<rparr>)\<rparr>) 200 100)
       = fst (computeSize (scenario_hex\<lparr>options := Some (scenario_effective\<lparr>transpose := False\<rparr>)\<rparr>) 100 200)"
proof -
  have a: "swap_args 200 100 = (100, 200)"
    by (simp add: swap_args_def)
  from computeSize_transpose_symmetry
         [where W = 200 and H = 100 and s = scenario_hex and opts = scenario_effective] a
  show ?thesis by blast
qed

lemma columns_15: "\<lfloor>100 / (5 * sqrt 3)\<rfloor> = 11"
  using sqrt3_lower sqrt3_upper by (intro floor_between) (simp_all add: field_simps)

text \<open>
  With the pair swapped the symmetry fails: in a 200 by 100 box the transposed backend
  of the scenario returns \<open>[10, 13]\<close>, and the swapped result of the plain backend for the
  100 by 200 box is \<open>[13, 10]\<close>.
\<close>

theorem computeSize_transpose_result_not_swapped:
  "fst (computeSize (scenario_hex\<lparr>options := Some (scenario_effective\<lparr>transpose := True\<rparr>)\<rparr>) 200 100)
     = Some (10, 13)
   \<and> map_option prod.swap
        (fst (computeSize (scenario_hex\<lparr>options := Some (scenario_effective\<lparr>transpose := False\<rparr>)\<rparr>) 100 200))
     = Some (13, 10)"
proof -
  have "\<lfloor>(200 - 2 * 10) / 15 + (1::real)\<rfloor> = 13"
    by (intro floor_between) simp_all
  then show ?thesis
    using columns_15
    by (simp add: computeSize_def js_div_def swap_args_eq scenario_hex_def scenario_effective_def)
qed

section \<open>Pixel to cell\<close>

text \<open>
  C6. For input coordinates that, once translated to the surface and scaled, fall outside
  the surface's bounds, \<open>eventToPosition\<close> returns \<open>[-1, -1]\<close>; the variant's mapping is not
  consulted: the result is the same for every mapping, even one that never returns.
  The bounding rectangle has a non-zero width and height, so that the scaling is finite.
\<close>

theorem eventToPosition_out_of_bounds:
  assumes "rect_width s \<noteq> 0" "rect_height s \<noteq> 0"
    and "px = (x - rect_left s) * (real_of_int (canvas_width s) / rect_width s)"
    and "py = (y - rect_top s) * (real_of_int (canvas_height s) / rect_height s)"
    and "px < 0 \<or> py < 0 \<or> px \<ge> real_of_int (canvas_width s) \<or> py \<ge> real_of_int (canvas_height s)"
  shows "eventToPosition nep s x y = Some (-1, -1)"
  using assms by (simp add: eventToPosition_def js_div_def Let_def)

theorem eventToPosition_out_of_bounds_witness:
  "rect_width scenario_hex \<noteq> 0 \<and> rect_height scenario_hex \<noteq> 0
   \<and> (310 - rect_left scenario_hex) * (real_of_int (canvas_width scenario_hex) / rect_width scenario_hex)
        \<ge> real_of_int (canvas_width scenario_hex)
   \<and> eventToPosition (\<lambda>s x y. None) scenario_hex 310 20 = Some (-1, -1)"
proof -
  have a: "rect_width scenario_hex \<noteq> 0" and b: "rect_height scenario_hex \<noteq> 0"
    and c: "(310 - rect_left scenario_hex) * (real_of_int (canvas_width scenario_hex) / rect_width scenario_hex)
        \<ge> real_of_int (canvas_width scenario_hex)"
    by (simp_all add: scenario_hex_def)
  from eventToPosition_out_of_bounds [OF a b refl refl, of 310 20 "\<lambda>s x y. None"] a b c
  show ?thesis by blast
qed

text \<open>
  C10. Parity of the hex mapping: on a backend with a non-degenerate geometry,
  \<open>_normalizedEventToPosition\<close> returns a cell for every input, and the column it returns
  has the parity of the row: \<open>1 + 2k\<close> on an odd row, \<open>2k\<close> on an even one, a point of the
  doubled-hex-grid lattice.
\<close>

theorem position_parity:
  assumes "options s = Some opts" "height opts \<noteq> 0" "spacingX s \<noteq> 0"
    and "(if transpose opts then canvas_width s else canvas_height s) \<noteq> 0"
  shows "\<exists>c r. normalizedEventToPosition s x y = Some (c, r) \<and> (even c \<longleftrightarrow> even r)"
  using assms
  by (cases "transpose opts")
     (simp_all add: normalizedEventToPosition_def js_div_def Let_def mod_util_odd swap_args_eq)

theorem position_parity_witness:
  "options scenario_hex = Some scenario_effective \<and> height scenario_effective \<noteq> 0
   \<and> spacingX scenario_hex \<noteq> 0 \<and> canvas_height scenario_hex \<noteq> 0
   \<and> (\<exists>c r. normalizedEventToPosition scenario_hex 30 40 = Some (c, r) \<and> (even c \<longleftrightarrow> even r))"
proof -
  have a: "options scenario_hex = Some scenario_effective"
    and b: "height scenario_effective \<noteq> 0" and c: "spacingX scenario_hex \<noteq> 0"
    and d: "canvas_height scenario_hex \<noteq> 0"
    and e: "\<not> transpose scenario_effective"
    by (simp_all add: scenario_hex_def scenario_effective_def)
  from e d have d': "(if transpose scenario_effective then canvas_width scenario_hex
                     else canvas_height scenario_hex) \<noteq> 0"
    by simp
  from position_parity [OF a b c d', of 30 40] a b c d
  show ?thesis by blast
qed

section \<open>Cell centre and back\<close>

lemma ceiling_half:
  fixes x :: real
  assumes "2 * x = real_of_int k"
  shows "real_of_int \<lceil>x\<rceil> \<le> x + 1 / 2"
proof -
  have "real_of_int \<lceil>x\<rceil> < x + 1" by linarith
  then have "real_of_int (2 * \<lceil>x\<rceil>) < real_of_int (k + 2)"
    using assms by simp
  then have "2 * \<lceil>x\<rceil> < k + 2" by (simp only: of_int_less_iff)
  then have "2 * \<lceil>x\<rceil> \<le> k + 1" by simp
  then have "real_of_int (2 * \<lceil>x\<rceil>) \<le> real_of_int (k + 1)" by (simp only: of_int_le_iff)
  then show ?thesis using assms by simp
qed

text \<open>
  The row: the canvas is \<open>\<lceil>(R - 1) 1.5 h + 2 h\<rceil>\<close> pixels along the row axis, a row slice is
  that over \<open>R\<close>, and the centre of row \<open>r\<close> lies in slice \<open>r\<close>, for an integer circumradius
  \<open>h \<ge> 1\<close>.
\<close>

lemma row_of_center:
  fixes h R r :: int
  assumes h: "1 \<le> h" and r0: "0 \<le> r" and rR: "r < R"
    and N: "N = \<lceil>(real_of_int R - 1) * (real_of_int h * 1.5) + 2 * real_of_int h\<rceil>"
  shows "real_of_int N \<noteq> 0"
    and "\<lfloor>(real_of_int r * (real_of_int h * 1.5) + real_of_int h) / (real_of_int N / real_of_int R)\<rfloor> = r"
proof -
  define hr Rr rr where "hr = real_of_int h" and "Rr = real_of_int R" and "rr = real_of_int r"
  define E where "E = (Rr - 1) * (hr * (3 / 2)) + 2 * hr"
  have hr: "1 \<le> hr" and rr: "0 \<le> rr" and Rr: "rr + 1 \<le> Rr"
    using h r0 rR by (simp_all add: hr_def Rr_def rr_def)
  have "2 * E = real_of_int (3 * h * (R - 1) + 4 * h)"
    by (simp add: E_def hr_def Rr_def field_simps)
  then have up: "real_of_int \<lceil>E\<rceil> \<le> E + 1 / 2" by (rule ceiling_half)
  have lo: "E \<le> real_of_int \<lceil>E\<rceil>" by linarith
  have NE: "real_of_int N = real_of_int \<lceil>E\<rceil>"
    using N by (simp add: E_def hr_def Rr_def)
  have p1: "hr * rr + hr \<le> hr * Rr"
    using mult_left_mono [of "rr + 1" Rr hr] hr Rr by (simp add: algebra_simps)
  have p2: "rr \<le> hr * rr"
    using mult_right_mono [of 1 hr rr] hr rr by simp
  have p3: "0 \<le> hr * rr" using hr rr by simp
  have E_eq: "E = 3 / 2 * (hr * Rr) + 1 / 2 * hr"
    by (simp add: E_def field_simps)
  have Epos: "0 < E"
    unfolding E_eq using p1 p3 hr by linarith
  then have Npos: "0 < real_of_int N" using lo NE by linarith
  then show "real_of_int N \<noteq> 0" by simp
  have Rpos: "0 < Rr" using rr Rr by linarith
  define y where "y = rr * (hr * (3 / 2)) + hr"
  have yR: "y * Rr = 3 / 2 * (hr * Rr * rr) + hr * Rr"
    by (simp add: y_def field_simps)
  have rE: "rr * (E + 1 / 2) = 3 / 2 * (hr * Rr * rr) + 1 / 2 * (hr * rr) + 1 / 2 * rr"
    by (simp add: E_eq field_simps)
  have r1E: "(rr + 1) * E = 3 / 2 * (hr * Rr * rr) + 1 / 2 * (hr * rr) + 3 / 2 * (hr * Rr) + 1 / 2 * hr"
    by (simp add: E_eq field_simps)
  have low: "rr * real_of_int N \<le> y * Rr"
  proof -
    have "rr * real_of_int N \<le> rr * (E + 1 / 2)"
      using up NE rr by (intro mult_left_mono) simp_all
    also have "\<dots> \<le> y * Rr"
      unfolding rE yR using p1 p2 p3 hr by linarith
    finally show ?thesis .
  qed
  have high: "y * Rr < (rr + 1) * real_of_int N"
  proof -
    have "y * Rr < (rr + 1) * E"
      unfolding r1E yR using p1 p3 hr by linarith
    also have "\<dots> \<le> (rr + 1) * real_of_int N"
      using lo NE rr by (intro mult_left_mono) simp_all
    finally show ?thesis .
  qed
  have q: "y / (real_of_int N / Rr) = y * Rr / real_of_int N"
    by simp
  have "rr \<le> y * Rr / real_of_int N"
    using low Npos by (simp add: pos_le_divide_eq)
  moreover have "y * Rr / real_of_int N < rr + 1"
    using high Npos by (simp add: pos_divide_less_eq)
  ultimately have "\<lfloor>y / (real_of_int N / Rr)\<rfloor> = r"
    unfolding q rr_def by (intro floor_unique) simp_all
  then show "\<lfloor>(real_of_int r * (real_of_int h * 1.5) + real_of_int h) / (real_of_int N / real_of_int R)\<rfloor> = r"
    by (simp add: y_def rr_def hr_def Rr_def)
qed

lemma column_even:
  fixes sx :: real
  assumes "sx \<noteq> 0" "even c"
  shows "2 * \<lfloor>(real_of_int c + 1) * sx / (2 * sx)\<rfloor> = c"
proof -
  have "(real_of_int c + 1) * sx / (2 * sx) = real_of_int (c + 1) / real_of_int 2"
    using assms(1) by simp
  then have "\<lfloor>(real_of_int c + 1) * sx / (2 * sx)\<rfloor> = (c + 1) div 2"
    by (simp only: floor_divide_of_int_eq)
  then show ?thesis using assms(2) by (auto elim: evenE)
qed

lemma column_odd:
  fixes sx :: real
  assumes "sx \<noteq> 0" "odd c"
  shows "1 + 2 * \<lfloor>((real_of_int c + 1) * sx - sx) / (2 * sx)\<rfloor> = c"
proof -
  have "((real_of_int c + 1) * sx - sx) / (2 * sx) = real_of_int c / real_of_int 2"
    using assms(1) by (simp add: algebra_simps)
  then have "\<lfloor>((real_of_int c + 1) * sx - sx) / (2 * sx)\<rfloor> = c div 2"
    by (simp only: floor_divide_of_int_eq)
  then show ?thesis using assms(2) by (auto elim: oddE)
qed

lemma normalizedEventToPosition_formula:
  assumes "options s = Some opts" "height opts \<noteq> 0" "spacingX s \<noteq> 0"
    and "N = (if transpose opts then canvas_width s else canvas_height s)" "N \<noteq> 0"
    and "(x, y) = (if transpose opts then (py, px) else (px, py))"
    and "row = \<lfloor>y / (real_of_int N / height opts)\<rfloor>"
  shows "normalizedEventToPosition s px py
           = Some (if odd row then 1 + 2 * \<lfloor>(x - spacingX s) / (2 * spacingX s)\<rfloor>
                   else 2 * \<lfloor>x / (2 * spacingX s)\<rfloor>, row)"
  using assms
  by (cases "transpose opts")
     (simp_all add: normalizedEventToPosition_def js_div_def Let_def mod_util_odd swap_args_eq)

text \<open>
  C5. Hex coordinate round-trip, on the cells of the doubled grid: on a backend whose
  geometry \<open>_updateSize\<close> derived (an integer circumradius \<open>h \<ge> 1\<close>, the canvas sized for
  the grid), for every cell \<open>(c, r)\<close> with \<open>0 \<le> r < height\<close> whose column has the parity of
  its row, the pixel centre that \<open>Hex.draw\<close> uses for the cell,
  \<open>((c + 1) spacingX, r spacingY + hexSize)\<close> with the axes swapped under \<open>transpose\<close>, is
  mapped back to exactly \<open>(c, r)\<close> by \<open>_normalizedEventToPosition\<close>. For any point, the
  mapping takes the row from the vertical pixel position and the height of a row slice,
  and on an odd row subtracts \<open>spacingX\<close> before the column division of the even rows.
\<close>

theorem center_round_trip:
  assumes o: "options s = Some opts"
    and h: "hexSize s = real_of_int h" "1 \<le> h"
    and sx: "spacingX s = hexSize s * sqrt 3 / 2" and sy: "spacingY s = hexSize s * 1.5"
    and N: "(if transpose opts then canvas_width s else canvas_height s)
              = \<lceil>(height opts - 1) * spacingY s + 2 * hexSize s\<rceil>"
    and R: "height opts = real_of_int R" and r: "0 \<le> r" "r < R"
    and par: "even c \<longleftrightarrow> even r"
    and px: "cellCenter s opts (real_of_int c) (real_of_int r) = (px, py)"
    and xy: "(x, y) = (if transpose opts then (qy, qx) else (qx, qy))"
    and row: "row = \<lfloor>y / (real_of_int (if transpose opts then canvas_width s else canvas_height s)
                              / height opts)\<rfloor>"
  shows "normalizedEventToPosition s px py = Some (c, r)
       \<and> normalizedEventToPosition s qx qy
           = Some (if odd row then 1 + 2 * \<lfloor>(x - spacingX s) / (2 * spacingX s)\<rfloor>
                   else 2 * \<lfloor>x / (2 * spacingX s)\<rfloor>, row)"
proof -
  define Nn where "Nn = (if transpose opts then canvas_width s else canvas_height s)"
  define cx cy where "cx = (real_of_int c + 1) * spacingX s"
    and "cy = real_of_int r * spacingY s + hexSize s"
  have cxy: "(cx, cy) = (if transpose opts then (py, px) else (px, py))"
    using px by (auto simp add: cellCenter_def cx_def cy_def Let_def split: if_splits)
  have sx0: "spacingX s \<noteq> 0"
    unfolding sx h(1) using h(2) by simp
  have R0: "height opts \<noteq> 0"
    unfolding R using r by simp
  have Nn: "Nn = \<lceil>(real_of_int R - 1) * (real_of_int h * 1.5) + 2 * real_of_int h\<rceil>"
    unfolding Nn_def N R sy h(1) ..
  note rc = row_of_center [OF h(2) r Nn]
  have N0: "Nn \<noteq> 0" using rc(1) by simp
  have yrow: "\<lfloor>cy / (real_of_int Nn / height opts)\<rfloor> = r"
    unfolding cy_def sy h(1) R by (rule rc(2))
  have "normalizedEventToPosition s px py
           = Some (if odd r then 1 + 2 * \<lfloor>(cx - spacingX s) / (2 * spacingX s)\<rfloor>
                   else 2 * \<lfloor>cx / (2 * spacingX s)\<rfloor>, r)"
    by (rule normalizedEventToPosition_formula [OF o R0 sx0 Nn_def N0 cxy yrow [symmetric]])
  moreover have "(if odd r then 1 + 2 * \<lfloor>(cx - spacingX s) / (2 * spacingX s)\<rfloor>
                   else 2 * \<lfloor>cx / (2 * spacingX s)\<rfloor>) = c"
    using par column_even [OF sx0, of c] column_odd [OF sx0, of c] by (simp add: cx_def)
  ultimately have trip: "normalizedEventToPosition s px py = Some (c, r)" by simp
  have "normalizedEventToPosition s qx qy
           = Some (if odd row then 1 + 2 * \<lfloor>(x - spacingX s) / (2 * spacingX s)\<rfloor>
                   else 2 * \<lfloor>x / (2 * spacingX s)\<rfloor>, row)"
    by (rule normalizedEventToPosition_formula [OF o R0 sx0 Nn_def N0 xy])
       (simp add: row Nn_def)
  with trip show ?thesis by simp
qed

theorem center_round_trip_witness:
  "options scenario_hex = Some scenario_effective
   \<and> hexSize scenario_hex = real_of_int 10
   \<and> canvas_height scenario_hex
       = \<lceil>(height scenario_effective - 1) * spacingY scenario_hex + 2 * hexSize scenario_hex\<rceil>
   \<and> height scenario_effective = real_of_int 10
   \<and> cellCenter scenario_hex scenario_effective (real_of_int 3) (real_of_int 5) = (20 * sqrt 3, 85)
   \<and> normalizedEventToPosition scenario_hex (20 * sqrt 3) 85 = Some (3, 5)"
proof -
  have a: "options scenario_hex = Some scenario_effective"
    and b: "hexSize scenario_hex = real_of_int 10"
    and c: "spacingX scenario_hex = hexSize scenario_hex * sqrt 3 / 2"
    and d: "spacingY scenario_hex = hexSize scenario_hex * 1.5"
    and e: "(if transpose scenario_effective then canvas_width scenario_hex
             else canvas_height scenario_hex)
              = \<lceil>(height scenario_effective - 1) * spacingY scenario_hex + 2 * hexSize scenario_hex\<rceil>"
    and f: "height scenario_effective = real_of_int 10"
    and g: "cellCenter scenario_hex scenario_effective (real_of_int 3) (real_of_int 5) = (20 * sqrt 3, 85)"
    by (simp_all add: scenario_hex_def scenario_effective_def cellCenter_def)
  have e': "canvas_height scenario_hex
       = \<lceil>(height scenario_effective - 1) * spacingY scenario_hex + 2 * hexSize scenario_hex\<rceil>"
    using e by (simp add: scenario_effective_def)
  have k: "(20 * sqrt 3, 85 :: real)
             = (if transpose scenario_effective then (85, 20 * sqrt 3) else (20 * sqrt 3, 85))"
    by (simp add: scenario_effective_def)
  have "normalizedEventToPosition scenario_hex (20 * sqrt 3) 85 = Some (3, 5)"
    using center_round_trip [OF a b _ c d e f _ _ _ g k refl] by simp
  with a b e' f g show ?thesis by blast
qed

text \<open>
  The round-trip fails off the doubled grid: cell \<open>(1, 0)\<close> of the scenario's 10 by 10 grid
  has its centre at \<open>(10 \<surd>3, 10)\<close>, which is mapped to \<open>(2, 0)\<close>.
\<close>

theorem center_of_odd_column_on_even_row:
  "cellCenter scenario_hex scenario_effective 1 0 = (10 * sqrt 3, 10)
   \<and> normalizedEventToPosition scenario_hex (10 * sqrt 3) 10 = Some (2, 0)"
proof -
  have "\<lfloor>10 / (155 / 10 :: real)\<rfloor> = 0"
    by (intro floor_between) simp_all
  then show ?thesis
    by (simp add: cellCenter_def normalizedEventToPosition_def js_div_def Let_def mod_util_def
        scenario_hex_def scenario_effective_def)
qed

section \<open>Drawing a cell\<close>

text \<open>
  C8. \<open>Hex.draw\<close> on a configured backend, with \<open>(px, py)\<close> the cell's centre. A cell with
  no glyphs is never an error and no glyph is drawn for it: without \<open>clearBefore\<close> the
  backend is left as it was, no call reaches the surface; with \<open>clearBefore\<close> the only
  calls are the hexagon path around the centre and its fill in the cell's background.
  A cell with glyphs gets, after the optional clear, one \<open>fillText\<close> per glyph, in
  sequence order, all in the cell's single foreground colour and all at the same point:
  the centre's first coordinate, and its second coordinate rounded up to a whole pixel.
\<close>

theorem draw_cell:
  assumes "options s = Some opts"
    and "cellCenter s opts (cell_x d) (cell_y d) = (px, py)"
  shows "(chars d = [] \<and> \<not> clearBefore \<longrightarrow> draw s d clearBefore = Some s)
       \<and> (chars d = [] \<and> clearBefore \<longrightarrow>
            draw s d clearBefore
              = Some (s\<lparr>ctx_fillStyle := cell_bg d,
                        ctx_ops := ctx_ops s @ [BeginPath] @ hexPath s opts px py @ [Fill (cell_bg d)]\<rparr>))
       \<and> (chars d \<noteq> [] \<longrightarrow>
            draw s d clearBefore
              = Some (s\<lparr>ctx_fillStyle := cell_fg d,
                        ctx_ops := ctx_ops s
                          @ (if clearBefore
                             then [BeginPath] @ hexPath s opts px py @ [Fill (cell_bg d)] else [])
                          @ map (\<lambda>ch. FillText (cell_fg d) ch px (real_of_int \<lceil>py\<rceil>)) (chars d)\<rparr>))"
  using assms
  by (simp add: draw_def fill_def ctx_calls_def hexPath_def fillText_loop_ops Let_def)

theorem draw_cell_witness:
  "options scenario_hex = Some scenario_effective
   \<and> cellCenter scenario_hex scenario_effective (cell_x blank_cell) (cell_y blank_cell) = (5 * sqrt 3, 10)
   \<and> cellCenter scenario_hex scenario_effective (cell_x glyph_cell) (cell_y glyph_cell) = (5 * sqrt 3, 25)
   \<and> chars blank_cell = [] \<and> chars glyph_cell \<noteq> []
   \<and> draw scenario_hex blank_cell False = Some scenario_hex
   \<and> draw scenario_hex blank_cell True
       = Some (scenario_hex\<lparr>ctx_fillStyle := cell_bg blank_cell,
                 ctx_ops := ctx_ops scenario_hex @ [BeginPath]
                   @ hexPath scenario_hex scenario_effective (5 * sqrt 3) 10
                   @ [Fill (cell_bg blank_cell)]\<rparr>)
   \<and> draw scenario_hex glyph_cell False
       = Some (scenario_hex\<lparr>ctx_fillStyle := cell_fg glyph_cell,
                 ctx_ops := ctx_ops scenario_hex @ []
                   @ map (\<lambda>ch. FillText (cell_fg glyph_cell) ch (5 * sqrt 3) (real_of_int \<lceil>25 :: real\<rceil>))
                       (chars glyph_cell)\<rparr>)"
proof -
  have a: "options scenario_hex = Some scenario_effective"
    and b: "cellCenter scenario_hex scenario_effective (cell_x blank_cell) (cell_y blank_cell)
              = (5 * sqrt 3, 10)"
    and c: "cellCenter scenario_hex scenario_effective (cell_x glyph_cell) (cell_y glyph_cell)
              = (5 * sqrt 3, 25)"
    and d: "chars blank_cell = []" and e: "chars glyph_cell \<noteq> []"
    by (simp_all add: scenario_hex_def scenario_effective_def cellCenter_def
        blank_cell_def glyph_cell_def)
  from draw_cell [OF a b, of False] d
  have 1: "draw scenario_hex blank_cell False = Some scenario_hex" by simp
  from draw_cell [OF a b, of True] d
  have 2: "draw scenario_hex blank_cell True
       = Some (scenario_hex\<lparr>ctx_fillStyle := cell_bg blank_cell,
                 ctx_ops := ctx_ops scenario_hex @ [BeginPath]
                   @ hexPath scenario_hex scenario_effective (5 * sqrt 3) 10
                   @ [Fill (cell_bg blank_cell)]\<rparr>)" by simp
  from draw_cell [OF a c, of False] e
  have 3: "draw scenario_hex glyph_cell False
       = Some (scenario_hex\<lparr>ctx_fillStyle := cell_fg glyph_cell,
                 ctx_ops := ctx_ops scenario_hex @ []
                   @ map (\<lambda>ch. FillText (cell_fg glyph_cell) ch (5 * sqrt 3) (real_of_int \<lceil>25 :: real\<rceil>))
                       (chars glyph_cell)\<rparr>)" by simp
  from a b c d e 1 2 3 show ?thesis by blast
qed

text \<open>
  The glyph is not always at the centre itself: at font size 22 the centre of cell
  \<open>(0, 1)\<close> is \<open>(7.5 \<surd>3, 37.5)\<close>, and \<open>@\<close> is drawn at \<open>(7.5 \<surd>3, 38)\<close>.
\<close>

theorem glyph_drawn_below_center:
  "cellCenter scenario_hex_22 (scenario_effective\<lparr>fontSize := 22\<rparr>) 0 1 = (15 * sqrt 3 / 2, 75 / 2)
   \<and> draw scenario_hex_22 glyph_cell False
       = Some (scenario_hex_22\<lparr>ctx_fillStyle := ''#fff'',
                 ctx_ops := [FillText ''#fff'' ''@'' (15 * sqrt 3 / 2) 38]\<rparr>)"
proof -
  have "\<lceil>75 / 2 :: real\<rceil> = 38"
    by (intro ceiling_between) simp_all
  then show ?thesis
    by (simp add: cellCenter_def draw_def ctx_calls_def Let_def glyph_cell_def
        scenario_hex_22_def scenario_effective_def)
qed

section \<open>Applying options\<close>

lemma updateSize_returns:
  "options s = Some opts \<Longrightarrow> \<exists>s'. updateSize mt s = Some s' \<and> options s' = Some opts"
  by (simp add: updateSize_def Let_def)

lemma Canvas_refresh_returns:
  "options s = Some opts \<Longrightarrow> \<exists>s'. Canvas_refresh mt s = Some s' \<and> options s' = Some opts"
  by (simp add: Canvas_refresh_def updateSize_def Let_def)

lemma Backend_setOptions_options:
  "options (snd (Backend_setOptions bd s opts)) = Some (defaultedOptions bd opts)"
  by (simp add: Backend_setOptions_def Let_def)

lemma BaseCanvas_setOptions_returns:
  "\<exists>s1. BaseCanvas_setOptions mt bd s opts = Some (fst (Backend_setOptions bd s opts), s1)
        \<and> options s1 = Some (defaultedOptions bd opts)"
proof (cases "Backend_setOptions bd s opts")
  case (Pair b s0)
  with Backend_setOptions_options [of bd s opts]
  have o: "options s0 = Some (defaultedOptions bd opts)" by simp
  from updateSize_returns [OF o, of mt] Pair o show ?thesis
    by (auto simp add: BaseCanvas_setOptions_def)
qed

lemma Canvas_setOptions_returns:
  "\<exists>s'. Canvas_setOptions mt bd s opts
          = Some (fst (Backend_setOptions bd s opts)
                    \<or> map_option fontSize (options s) \<noteq> fontSize_opt opts
                    \<or> map_option fontFamily (options s) \<noteq> fontFamily_opt opts
                    \<or> map_option spacing (options s) \<noteq> spacing_opt opts, s')
        \<and> options s' = Some (defaultedOptions bd opts)"
proof -
  obtain s1 where b: "BaseCanvas_setOptions mt bd s opts = Some (fst (Backend_setOptions bd s opts), s1)"
    and o: "options s1 = Some (defaultedOptions bd opts)"
    using BaseCanvas_setOptions_returns by blast
  from Canvas_refresh_returns [OF o, of mt] b o show ?thesis
    by (auto simp add: Canvas_setOptions_def Let_def)
qed

lemma Canvas_setOptions_same:
  assumes "options s = Some cur" "defaultedOptions bd opts = cur"
    and "fontSize_opt opts = Some (fontSize cur)" "fontFamily_opt opts = Some (fontFamily cur)"
    and "spacing_opt opts = Some (spacing cur)"
  shows "Canvas_setOptions mt bd s opts = Some (False, s)"
proof -
  have "s\<lparr>options := Some cur\<rparr> = s"
    using assms(1) by (cases s) simp
  then show ?thesis
    using assms
    by (simp add: Canvas_setOptions_def BaseCanvas_setOptions_def Backend_setOptions_def Let_def)
qed

lemma scenario_defaulted_fields:
  "fontSize_opt scenario_options = Some (fontSize (defaultedOptions bd scenario_options))"
  "fontFamily_opt scenario_options = Some (fontFamily (defaultedOptions bd scenario_options))"
  "spacing_opt scenario_options = Some (spacing (defaultedOptions bd scenario_options))"
  by (simp_all add: scenario_options_def defaultedOptions_def or_default_def Let_def)

text \<open>The scenario's call on the new backend ends in \<^const>\<open>scenario_hex\<close>.\<close>

lemma scenario_defaulted: "defaultedOptions display_defaults scenario_options = scenario_effective"
  by (simp add: scenario_effective_def scenario_options_def defaultedOptions_def Hex_DEFAULTS_def
      Canvas_DEFAULTS_def display_defaults_def or_default_def Let_def)

lemma scenario_setOptions:
  "Canvas_setOptions glyph_em display_defaults fresh_hex scenario_options = Some (True, scenario_hex)"
proof -
  have b: "Backend_setOptions display_defaults fresh_hex scenario_options
             = (True, fresh_hex\<lparr>options := Some scenario_effective\<rparr>)"
    by (simp add: Backend_setOptions_def scenario_defaulted Let_def) (simp add: fresh_hex_def)
  obtain s1 where u: "updateSize glyph_em (fresh_hex\<lparr>options := Some scenario_effective\<rparr>) = Some s1"
    and o: "options s1 = Some scenario_effective"
    using updateSize_returns [of "fresh_hex\<lparr>options := Some scenario_effective\<rparr>" scenario_effective glyph_em]
    by auto
  have r: "Canvas_refresh glyph_em s1 = Some scenario_hex"
    using u
    by (auto simp add: Canvas_refresh_def Canvas_font_def updateSize_def scenario_effective_def
      fresh_hex_def scenario_hex_def Let_def glyph_15 radius_15 extent_15)
  show ?thesis
    by (simp add: Canvas_setOptions_def BaseCanvas_setOptions_def b u r)
qed

text \<open>
  C1. \<open>setOptions\<close> of a text backend (\<open>Canvas.setOptions\<close>, which \<open>Hex\<close> inherits), for
  every host and all base defaults. It returns true whenever \<open>fontSize\<close>, \<open>fontFamily\<close> or
  \<open>spacing\<close> of the passed options differs from the prior effective options, or the base
  level asks for a repaint. It returns false, and leaves the backend as it was, when the
  passed options are the current effective options. For the scenario's options
  \<open>{layout: "hex", width: 10, height: 10, fontSize: 15, fontFamily: "monospace", spacing: 1,
  border: 0, transpose: false}\<close> the first call, on a backend without prior options, returns
  true, and the same call repeated at once returns false.
\<close>

theorem setOptions_needsRepaint:
  "(options s = Some old
      \<and> (fontSize_opt opts \<noteq> Some (fontSize old) \<or> fontFamily_opt opts \<noteq> Some (fontFamily old)
           \<or> spacing_opt opts \<noteq> Some (spacing old)
           \<or> fst (Backend_setOptions bd s opts))
    \<longrightarrow> (\<exists>s'. Canvas_setOptions mt bd s opts = Some (True, s')))
   \<and> (options s = Some cur \<and> defaultedOptions bd opts = cur
        \<and> fontSize_opt opts = Some (fontSize cur) \<and> fontFamily_opt opts = Some (fontFamily cur)
        \<and> spacing_opt opts = Some (spacing cur)
    \<longrightarrow> Canvas_setOptions mt bd s opts = Some (False, s))
   \<and> (options s = None
    \<longrightarrow> (\<exists>s1. Canvas_setOptions mt bd s scenario_options = Some (True, s1)
              \<and> Canvas_setOptions mt bd s1 scenario_options = Some (False, s1)))"
proof (intro conjI impI)
  assume a: "options s = Some old
      \<and> (fontSize_opt opts \<noteq> Some (fontSize old) \<or> fontFamily_opt opts \<noteq> Some (fontFamily old)
           \<or> spacing_opt opts \<noteq> Some (spacing old)
           \<or> fst (Backend_setOptions bd s opts))"
  from Canvas_setOptions_returns [of mt bd s opts] a
  show "\<exists>s'. Canvas_setOptions mt bd s opts = Some (True, s')"
    by auto
next
  assume "options s = Some cur \<and> defaultedOptions bd opts = cur
        \<and> fontSize_opt opts = Some (fontSize cur) \<and> fontFamily_opt opts = Some (fontFamily cur)
        \<and> spacing_opt opts = Some (spacing cur)"
  then show "Canvas_setOptions mt bd s opts = Some (False, s)"
    using Canvas_setOptions_same by blast
next
  assume n: "options s = None"
  obtain s1 where 1: "Canvas_setOptions mt bd s scenario_options
          = Some (fst (Backend_setOptions bd s scenario_options)
                    \<or> map_option fontSize (options s) \<noteq> fontSize_opt scenario_options
                    \<or> map_option fontFamily (options s) \<noteq> fontFamily_opt scenario_options
                    \<or> map_option spacing (options s) \<noteq> spacing_opt scenario_options, s1)"
    and o: "options s1 = Some (defaultedOptions bd scenario_options)"
    using Canvas_setOptions_returns by blast
  have "fst (Backend_setOptions bd s scenario_options)"
    using n by (simp add: Backend_setOptions_def Let_def)
  with 1 have first: "Canvas_setOptions mt bd s scenario_options = Some (True, s1)"
    by simp
  have "Canvas_setOptions mt bd s1 scenario_options = Some (False, s1)"
    by (rule Canvas_setOptions_same [OF o refl scenario_defaulted_fields])
  with first show "\<exists>s1. Canvas_setOptions mt bd s scenario_options = Some (True, s1)
              \<and> Canvas_setOptions mt bd s1 scenario_options = Some (False, s1)"
    by blast
qed

theorem setOptions_needsRepaint_witness:
  "options scenario_hex = Some scenario_effective
   \<and> fontSize_opt (scenario_options\<lparr>fontSize_opt := Some 16\<rparr>) \<noteq> Some (fontSize scenario_effective)
   \<and> (\<exists>s'. Canvas_setOptions glyph_em display_defaults scenario_hex
               (scenario_options\<lparr>fontSize_opt := Some 16\<rparr>) = Some (True, s'))
   \<and> defaultedOptions display_defaults scenario_options = scenario_effective
   \<and> Canvas_setOptions glyph_em display_defaults scenario_hex scenario_options
       = Some (False, scenario_hex)
   \<and> options fresh_hex = None
   \<and> (\<exists>s1. Canvas_setOptions glyph_em display_defaults fresh_hex scenario_options = Some (True, s1)
          \<and> Canvas_setOptions glyph_em display_defaults s1 scenario_options = Some (False, s1))"
proof -
  have a: "options scenario_hex = Some scenario_effective"
    and b: "fontSize_opt (scenario_options\<lparr>fontSize_opt := Some 16\<rparr>) \<noteq> Some (fontSize scenario_effective)"
    and c: "defaultedOptions display_defaults scenario_options = scenario_effective"
    and d: "fontSize_opt scenario_options = Some (fontSize scenario_effective)"
           "fontFamily_opt scenario_options = Some (fontFamily scenario_effective)"
           "spacing_opt scenario_options = Some (spacing scenario_effective)"
    and e: "options fresh_hex = None"
    by (simp_all add: scenario_hex_def scenario_effective_def scenario_options_def fresh_hex_def
        defaultedOptions_def Hex_DEFAULTS_def Canvas_DEFAULTS_def display_defaults_def
        or_default_def Let_def)
  from setOptions_needsRepaint
         [of scenario_hex scenario_effective "scenario_options\<lparr>fontSize_opt := Some 16\<rparr>"
             display_defaults glyph_em] a b
  have 1: "\<exists>s'. Canvas_setOptions glyph_em display_defaults scenario_hex
               (scenario_options\<lparr>fontSize_opt := Some 16\<rparr>) = Some (True, s')"
    by blast
  from setOptions_needsRepaint
         [of scenario_hex _ scenario_options display_defaults glyph_em scenario_effective] a c d
  have 2: "Canvas_setOptions glyph_em display_defaults scenario_hex scenario_options
       = Some (False, scenario_hex)"
    by blast
  from setOptions_needsRepaint [of fresh_hex _ _ display_defaults glyph_em] e
  have 3: "\<exists>s1. Canvas_setOptions glyph_em display_defaults fresh_hex scenario_options = Some (True, s1)
          \<and> Canvas_setOptions glyph_em display_defaults s1 scenario_options = Some (False, s1)"
    by blast
  from a b c e 1 2 3 show ?thesis by blast
qed

section \<open>Geometry after a change of font style\<close>












section \<open>Font-fit, then size-fit\<close>

lemma refit_geometry:
  assumes "refit mt s F = Some s'" "options s = Some opts"
  shows "options s' = Some (opts\<lparr>fontSize := F\<rparr>)"
    and "hexSize s' = real_of_int \<lfloor>spacing opts * (F + real_of_int \<lceil>mt (Canvas_font (opts\<lparr>fontSize := F\<rparr>))\<rceil> / sqrt 3) / 2\<rfloor>"
    and "spacingX s' = hexSize s' * sqrt 3 / 2"
    and "spacingY s' = hexSize s' * (3 / 2)"
    and "(if transpose opts then canvas_height s' else canvas_width s') = \<lceil>(width opts + 1) * spacingX s'\<rceil>"
    and "(if transpose opts then canvas_width s' else canvas_height s')
           = \<lceil>(height opts - 1) * spacingY s' + 2 * hexSize s'\<rceil>"
  using assms by (auto simp add: refit_def Canvas_refresh_def updateSize_def Let_def)

text \<open>The value of \<open>computeFontSize\<close> when none of its three divisors is zero.\<close>

lemma computeFontSize_value:
  assumes o: "options s = Some opts"
    and a: "(aw, ah) = (if transpose opts then (H, W) else (W, H))"
    and d1: "(width opts + 1) * sqrt 3 \<noteq> 0" and d2: "2 + 3 / 2 * (height opts - 1) \<noteq> 0"
    and k: "k = spacing opts * (1 + real_of_int \<lceil>mt (Font [] 100 (fontFamily opts))\<rceil> / 100 / sqrt 3)"
    and k0: "k \<noteq> 0"
    and m: "m = min (2 * aw / ((width opts + 1) * sqrt 3) - 1) (ah / (2 + 3 / 2 * (height opts - 1)))"
  shows "fst (computeFontSize mt s W H) = Some (\<lceil>2 * real_of_int (\<lfloor>m\<rfloor> + 1) / k\<rceil> - 1)"
  using assms
  by (cases "transpose opts")
     (simp_all add: computeFontSize_def js_div_def swap_args_def Let_def)

subsection \<open>The scenario's backend in two pixel boxes\<close>

lemma glyph_20: "\<lceil>glyph_em (Font st 20 fam)\<rceil> = 12"
  by (simp add: glyph_em_def)

lemma radius_20: "\<lfloor>(20 + 12 / sqrt 3) / 2\<rfloor> = 13"
  using sqrt3_lower sqrt3_upper by (intro floor_between) (simp_all add: field_simps)

lemma extent_20: "\<lceil>143 * sqrt 3 / 2\<rceil> = 124"
  using sqrt3_lower sqrt3_upper by (intro ceiling_between) (simp_all add: field_simps)

lemma scenario_refit_20: "refit glyph_em scenario_hex 20 = Some scenario_hex_20"
  by (simp add: refit_def Canvas_refresh_def Canvas_font_def updateSize_def
      scenario_effective_def scenario_hex_def scenario_hex_20_def Let_def
      glyph_20 radius_20 extent_20 ceiling_eq_iff)

lemma width_bound: "14 \<le> 200 / sqrt 3 - 1"
  using sqrt3_lower sqrt3_upper by (simp add: field_simps)

lemma scale_em: "1 + 3 / (5 * sqrt 3) \<noteq> 0"
proof -
  have "0 < 1 + 3 / (5 * sqrt 3)" by (intro add_pos_pos) simp_all
  then show ?thesis by simp
qed

lemma fontsize_30: "\<lceil>30 / (1 + 3 / (5 * sqrt 3))\<rceil> = 23"
  using sqrt3_lower sqrt3_upper by (intro ceiling_between) (simp_all add: field_simps)

lemma fontsize_28: "\<lceil>28 / (1 + 3 / (5 * sqrt 3))\<rceil> = 21"
  using sqrt3_lower sqrt3_upper by (intro ceiling_between) (simp_all add: field_simps)

lemma scenario_fontSize_217: "fst (computeFontSize glyph_em scenario_hex 1100 217) = Some 22"
proof -
  have m: "min (200 / sqrt 3 - 1) 14 = (14::real)"
    using width_bound by simp
  have "fst (computeFontSize glyph_em scenario_hex 1100 217)
          = Some (\<lceil>2 * real_of_int (\<lfloor>14 :: real\<rfloor> + 1) / (1 + 3 / (5 * sqrt 3))\<rceil> - 1)"
    by (rule computeFontSize_value [where opts = scenario_effective and aw = 1100 and ah = 217])
       (simp_all add: scenario_hex_def scenario_effective_def glyph_100 m scale_em)
  then show ?thesis by (simp add: fontsize_30)
qed

lemma scenario_fontSize_210: "fst (computeFontSize glyph_em scenario_hex 1100 210) = Some 20"
proof -
  have m: "\<lfloor>min (200 / sqrt 3 - 1) (420 / 31)\<rfloor> = 13"
    using width_bound by (intro floor_between) simp_all
  have "fst (computeFontSize glyph_em scenario_hex 1100 210)
          = Some (\<lceil>2 * real_of_int (\<lfloor>min (200 / sqrt 3 - 1) (420 / 31)\<rfloor> + 1) / (1 + 3 / (5 * sqrt 3))\<rceil> - 1)"
    by (rule computeFontSize_value [where opts = scenario_effective and aw = 1100 and ah = 210])
       (simp_all add: scenario_hex_def scenario_effective_def glyph_100 scale_em)
  then show ?thesis by (simp add: m fontsize_28)
qed

lemma columns_22: "\<lfloor>1100 / (15 * sqrt 3 / 2)\<rfloor> = 84"
  using sqrt3_lower sqrt3_upper by (intro floor_between) (simp_all add: field_simps)

lemma scenario_size_22: "fst (computeSize scenario_hex_22 1100 217) = Some (83, 9)"
proof -
  have "\<lfloor>(217 - 2 * 15) / (45 / 2) + (1::real)\<rfloor> = 9"
    by (intro floor_between) simp_all
  then show ?thesis
    using columns_22
    by (simp add: computeSize_def js_div_def scenario_hex_22_def scenario_effective_def)
qed

text \<open>
  When the fit does hold. On a configured backend with integer grid dimensions
  \<open>C \<ge> 0\<close> and \<open>R \<ge> 1\<close>, a positive \<open>spacing\<close> and a host whose glyph widths are not
  negative: let \<open>F = computeFontSize(W, H)\<close> and let the geometry be recomputed at font size
  \<open>F\<close>. If the recomputed circumradius is positive, and the glyph width measured at \<open>F\<close>
  (rounded up, as \<open>_updateSize\<close> takes it) is at most \<open>F\<close> times the width-to-size ratio that
  \<open>computeFontSize\<close> measured at 100 pixels, then \<open>computeSize(W, H)\<close> returns at least \<open>C\<close>
  columns and \<open>R\<close> rows, and the canvas sized for the \<open>C\<close> by \<open>R\<close> grid stays within
  \<open>\<lceil>W\<rceil>\<close> by \<open>\<lceil>H\<rceil>\<close>, with \<open>transpose\<close> on or off. The condition on the glyph width is
  sufficient, not necessary.
\<close>

lemma font_fit_then_size_fit:
  assumes o: "options s = Some opts"
    and C: "width opts = real_of_int C" "0 \<le> C" and R: "height opts = real_of_int R" "1 \<le> R"
    and sp: "0 < spacing opts"
    and nonneg: "0 \<le> mt (Font [] 100 (fontFamily opts))"
    and F: "fst (computeFontSize mt s W H) = Some F"
    and s': "refit mt s (real_of_int F) = Some s'"
    and hpos: "0 < hexSize s'"
    and lin: "real_of_int \<lceil>mt (Canvas_font (opts\<lparr>fontSize := real_of_int F\<rparr>))\<rceil>
                \<le> real_of_int \<lceil>mt (Font [] 100 (fontFamily opts))\<rceil> / 100 * real_of_int F"
  shows "\<exists>c r. fst (computeSize s' W H) = Some (c, r) \<and> C \<le> c \<and> R \<le> r
           \<and> canvas_width s' \<le> \<lceil>W\<rceil> \<and> canvas_height s' \<le> \<lceil>H\<rceil>"
proof -
  define aw ah where "aw = (if transpose opts then H else W)"
    and "ah = (if transpose opts then W else H)"
  define ratio where "ratio = real_of_int \<lceil>mt (Font [] 100 (fontFamily opts))\<rceil> / 100"
  define k where "k = spacing opts * (1 + ratio / sqrt 3)"
  define wd where "wd = (real_of_int C + 1) * sqrt 3"
  define hd where "hd = 2 + 3 / 2 * (real_of_int R - 1)"
  define m where "m = min (2 * aw / wd - 1) (ah / hd)"
  define cw where "cw = real_of_int \<lceil>mt (Canvas_font (opts\<lparr>fontSize := real_of_int F\<rparr>))\<rceil>"
  define h where "h = hexSize s'"
  have Cr: "0 \<le> real_of_int C" and Rr: "1 \<le> real_of_int R"
    using C(2) R(2) by simp_all
  have wd: "0 < wd" unfolding wd_def using Cr by (intro mult_pos_pos) simp_all
  have "0 \<le> 3 / 2 * (real_of_int R - 1)" using Rr by simp
  then have hd: "0 < hd" unfolding hd_def by linarith
  have ratio: "0 \<le> ratio" using nonneg by (simp add: ratio_def)
  have k: "0 < k" unfolding k_def using sp ratio by (intro mult_pos_pos add_pos_nonneg) simp_all
  have Fval: "F = \<lceil>2 * real_of_int (\<lfloor>m\<rfloor> + 1) / k\<rceil> - 1"
  proof -
    have "fst (computeFontSize mt s W H) = Some (\<lceil>2 * real_of_int (\<lfloor>m\<rfloor> + 1) / k\<rceil> - 1)"
    proof (rule computeFontSize_value [OF o, where aw = aw and ah = ah])
      show "(aw, ah) = (if transpose opts then (H, W) else (W, H))"
        by (simp add: aw_def ah_def)
      show "(width opts + 1) * sqrt 3 \<noteq> 0" unfolding C(1) using wd unfolding wd_def by linarith
      show "2 + 3 / 2 * (height opts - 1) \<noteq> 0" unfolding R(1) using hd unfolding hd_def by linarith
      show "k = spacing opts * (1 + real_of_int \<lceil>mt (Font [] 100 (fontFamily opts))\<rceil> / 100 / sqrt 3)"
        by (simp add: k_def ratio_def)
      show "k \<noteq> 0" using k by simp
      show "m = min (2 * aw / ((width opts + 1) * sqrt 3) - 1) (ah / (2 + 3 / 2 * (height opts - 1)))"
        by (simp add: m_def wd_def hd_def C(1) R(1))
    qed
    with F show ?thesis by simp
  qed
  note g = refit_geometry [OF s' o]
  have hval: "h = real_of_int \<lfloor>spacing opts * (real_of_int F + cw / sqrt 3) / 2\<rfloor>"
    unfolding h_def cw_def by (rule g(2))
  have sx: "spacingX s' = h * sqrt 3 / 2" and sy: "spacingY s' = h * (3 / 2)"
    unfolding h_def by (rule g(3), rule g(4))
  \<comment> \<open>the recomputed circumradius stays below the rounded-up target\<close>
  have Flt: "real_of_int F < 2 * real_of_int (\<lfloor>m\<rfloor> + 1) / k"
    unfolding Fval by linarith
  have "spacing opts * (real_of_int F + cw / sqrt 3) / 2 \<le> real_of_int F * k / 2"
  proof -
    have "cw \<le> ratio * real_of_int F"
      using lin unfolding cw_def ratio_def .
    then have "cw / sqrt 3 \<le> ratio * real_of_int F / sqrt 3"
      by (intro divide_right_mono) simp_all
    then have "real_of_int F + cw / sqrt 3 \<le> real_of_int F * (1 + ratio / sqrt 3)"
      by (simp add: algebra_simps)
    then have "spacing opts * (real_of_int F + cw / sqrt 3)
                \<le> spacing opts * (real_of_int F * (1 + ratio / sqrt 3))"
      using sp by (intro mult_left_mono) simp_all
    also have "\<dots> = real_of_int F * k"
      by (simp add: k_def)
    finally show ?thesis by (intro divide_right_mono) simp_all
  qed
  moreover have "real_of_int F * k / 2 < real_of_int (\<lfloor>m\<rfloor> + 1)"
    using Flt k by (simp add: pos_less_divide_eq)
  ultimately have "spacing opts * (real_of_int F + cw / sqrt 3) / 2 < real_of_int (\<lfloor>m\<rfloor> + 1)"
    by linarith
  then have "\<lfloor>spacing opts * (real_of_int F + cw / sqrt 3) / 2\<rfloor> < \<lfloor>m\<rfloor> + 1"
    by (simp only: floor_less_iff)
  then have "\<lfloor>spacing opts * (real_of_int F + cw / sqrt 3) / 2\<rfloor> \<le> \<lfloor>m\<rfloor>" by simp
  then have "h \<le> real_of_int \<lfloor>m\<rfloor>" unfolding hval by (simp only: of_int_le_iff)
  then have hm: "h \<le> m" by linarith
  have h0: "0 < h" using hpos by (simp add: h_def)
  \<comment> \<open>the two constraints of the fit\<close>
  have hw: "h + 1 \<le> 2 * aw / wd" and hh: "h \<le> ah / hd"
    using hm by (simp_all add: m_def)
  have xfit: "(real_of_int C + 1) * spacingX s' \<le> aw"
  proof -
    have "(h + 1) * wd \<le> 2 * aw" using hw wd by (simp add: pos_le_divide_eq)
    moreover have "0 \<le> wd" using wd by simp
    ultimately have "h * wd \<le> 2 * aw" by (simp add: algebra_simps)
    then show ?thesis by (simp add: sx wd_def algebra_simps)
  qed
  have yfit: "(real_of_int R - 1) * spacingY s' + 2 * h \<le> ah"
  proof -
    have "h * hd \<le> ah" using hh hd by (simp add: pos_le_divide_eq)
    then show ?thesis by (simp add: sy hd_def algebra_simps)
  qed
  have sx0: "0 < spacingX s'" and sy0: "0 < spacingY s'"
    using h0 by (simp_all add: sx sy)
  have cs: "fst (computeSize s' W H)
              = Some (\<lfloor>aw / spacingX s'\<rfloor> - 1, \<lfloor>(ah - 2 * h) / spacingY s' + 1\<rfloor>)"
    using g(1) sx0 sy0
    by (simp add: computeSize_def js_div_def swap_args_eq aw_def ah_def h_def)
  have "real_of_int (C + 1) \<le> aw / spacingX s'"
    using xfit sx0 by (simp add: pos_le_divide_eq)
  then have "C + 1 \<le> \<lfloor>aw / spacingX s'\<rfloor>"
    by (subst le_floor_iff)
  then have c: "C \<le> \<lfloor>aw / spacingX s'\<rfloor> - 1"
    by simp
  have "real_of_int R - 1 \<le> (ah - 2 * h) / spacingY s'"
    using yfit sy0 by (simp add: pos_le_divide_eq)
  then have "real_of_int R \<le> (ah - 2 * h) / spacingY s' + 1"
    by linarith
  then have r: "R \<le> \<lfloor>(ah - 2 * h) / spacingY s' + 1\<rfloor>"
    by (subst le_floor_iff)
  have cx: "\<lceil>(width opts + 1) * spacingX s'\<rceil> \<le> \<lceil>aw\<rceil>"
    using xfit by (simp add: C(1) ceiling_mono)
  have cy: "\<lceil>(height opts - 1) * spacingY s' + 2 * hexSize s'\<rceil> \<le> \<lceil>ah\<rceil>"
    using yfit by (simp add: R(1) h_def ceiling_mono)
  have canvas: "canvas_width s' \<le> \<lceil>W\<rceil> \<and> canvas_height s' \<le> \<lceil>H\<rceil>"
    using g(5,6) cx cy by (cases "transpose opts") (simp_all add: aw_def ah_def)
  from cs c r canvas show ?thesis by blast
qed

lemma font_fit_then_size_fit_example:
  "options scenario_hex = Some scenario_effective
   \<and> width scenario_effective = real_of_int 10 \<and> height scenario_effective = real_of_int 10
   \<and> 0 < spacing scenario_effective
   \<and> 0 \<le> glyph_em (Font [] 100 (fontFamily scenario_effective))
   \<and> fst (computeFontSize glyph_em scenario_hex 1100 210) = Some 20
   \<and> refit glyph_em scenario_hex (real_of_int 20) = Some scenario_hex_20
   \<and> 0 < hexSize scenario_hex_20
   \<and> real_of_int \<lceil>glyph_em (Canvas_font (scenario_effective\<lparr>fontSize := real_of_int 20\<rparr>))\<rceil>
        \<le> real_of_int \<lceil>glyph_em (Font [] 100 (fontFamily scenario_effective))\<rceil> / 100 * real_of_int 20
   \<and> (\<exists>c r. fst (computeSize scenario_hex_20 1100 210) = Some (c, r) \<and> 10 \<le> c \<and> 10 \<le> r
          \<and> canvas_width scenario_hex_20 \<le> \<lceil>1100 :: real\<rceil>
          \<and> canvas_height scenario_hex_20 \<le> \<lceil>210 :: real\<rceil>)"
proof -
  have a: "options scenario_hex = Some scenario_effective"
    and b: "width scenario_effective = real_of_int 10" "height scenario_effective = real_of_int 10"
    and c: "0 < spacing scenario_effective"
    and d: "0 \<le> glyph_em (Font [] 100 (fontFamily scenario_effective))"
    and e: "0 < hexSize scenario_hex_20"
    and f: "real_of_int \<lceil>glyph_em (Canvas_font (scenario_effective\<lparr>fontSize := real_of_int 20\<rparr>))\<rceil>
        \<le> real_of_int \<lceil>glyph_em (Font [] 100 (fontFamily scenario_effective))\<rceil> / 100 * real_of_int 20"
    by (simp_all add: scenario_hex_def scenario_effective_def scenario_hex_20_def glyph_em_def
        Canvas_font_def)
  have g: "refit glyph_em scenario_hex (real_of_int 20) = Some scenario_hex_20"
    using scenario_refit_20 by simp
  from font_fit_then_size_fit [OF a b(1) _ b(2) _ c d scenario_fontSize_210 g e f]
  have "\<exists>c r. fst (computeSize scenario_hex_20 1100 210) = Some (c, r) \<and> 10 \<le> c \<and> 10 \<le> r
          \<and> canvas_width scenario_hex_20 \<le> \<lceil>1100 :: real\<rceil>
          \<and> canvas_height scenario_hex_20 \<le> \<lceil>210 :: real\<rceil>"
    by simp
  with a b c d e f g scenario_fontSize_210 show ?thesis by blast
qed

text \<open>
  C2. Hex size-fit / font-fit inverse: with \<open>F = computeFontSize(W, H)\<close> and the geometry
  recomputed at font size \<open>F\<close>, \<open>computeSize(W, H)\<close> is to return at least the configured
  \<open>C\<close> columns and \<open>R\<close> rows, and the \<open>C\<close> by \<open>R\<close> grid is to stay within \<open>W\<close> by \<open>H\<close>. The
  code does not keep this. The scenario's 10 by 10 grid in a 1100 by 217 box, on a host
  whose \<open>W\<close> is 0.6 em wide: \<open>computeFontSize\<close> aims at circumradius 15 (\<open>closest larger
  hexSize\<close>) and returns 22 (\<open>closest smaller fontSize\<close>), computed with the ratio 0.6
  measured at 100 pixels; at 22 pixels \<open>_updateSize\<close> measures \<open>\<lceil>13.2\<rceil> = 14\<close>, more than
  \<open>0.6 \<times> 22\<close>, and derives circumradius 15 after all; \<open>computeSize(1100, 217)\<close> then
  returns \<open>[83, 9]\<close>, one row short, and the canvas for 10 rows is 233 pixels high.
\<close>

theorem font_fit_overflows:
  "height scenario_effective = 10
   \<and> fst (computeFontSize glyph_em scenario_hex 1100 217) = Some 22
   \<and> refit glyph_em scenario_hex 22 = Some scenario_hex_22
   \<and> fst (computeSize scenario_hex_22 1100 217) = Some (83, 9)
   \<and> canvas_height scenario_hex_22 = 233"
  using scenario_fontSize_217 scenario_refit_22 scenario_size_22
  by (simp add: scenario_effective_def scenario_hex_22_def)

end
